theory Spec2Isabelle
  imports Complex_Main "HOL-Library.AList"
begin

section \<open>OfferCompare: the offer store and its routes\<close>

text \<open>
  A shallow embedding of \<^verbatim>\<open>server/storage.ts\<close> (class \<^verbatim>\<open>MemStorage\<close>) and of the offer
  routes of \<^verbatim>\<open>server/routes.ts\<close>, with the record types of \<^verbatim>\<open>shared/schema.ts\<close>.

  Conventions.
  \<^item> A JavaScript number is a \<open>real\<close>: the finite doubles, with exact arithmetic. The one
    \<^verbatim>\<open>NaN\<close> the modelled code can produce from validated input (\<^verbatim>\<open>undefined / 2\<close> in the
    overall score) is the value \<open>None\<close> of an \<open>int option\<close>.
  \<^item> A nullable or optional property is an \<open>option\<close>; \<open>None\<close> stands for both \<^verbatim>\<open>null\<close> and
    \<^verbatim>\<open>undefined\<close>, which the modelled code never tells apart.
  \<^item> A \<^verbatim>\<open>Map<number, T>\<close> is an association list in insertion order: \<^verbatim>\<open>get\<close> is
    \<open>map_of\<close>, \<^verbatim>\<open>set\<close> is \<open>AList.update\<close> (replace in place, else append), \<^verbatim>\<open>values()\<close> is
    \<open>map snd\<close>.
  \<^item> \<^verbatim>\<open>new Date()\<close> is a parameter \<open>now\<close>; \<^verbatim>\<open>req.isAuthenticated()\<close> with \<^verbatim>\<open>req.user.id\<close> is a
    \<open>nat option\<close>; the body of a request is taken after \<^verbatim>\<open>insertOfferSchema.parse\<close>.
\<close>

subsection \<open>shared/schema.ts\<close>

text \<open>Of a listing, the properties the offer routes read.\<close>

record Listing =
  listing_id :: nat
  listing_userId :: nat
  address :: string
  loanBalance :: "real option"

text \<open>
  \<^verbatim>\<open>InsertOffer\<close>: the offers table without \<^verbatim>\<open>id\<close>, \<^verbatim>\<open>userId\<close>, \<^verbatim>\<open>createdAt\<close>, \<^verbatim>\<open>riskScore\<close>,
  \<^verbatim>\<open>overallScore\<close> and \<^verbatim>\<open>netProceeds\<close>. The property \<^verbatim>\<open>notes\<close> is \<open>notes_offer\<close> here.
\<close>

record InsertOffer =
  listingId :: nat
  parentOfferId :: "nat option"
  versionNumber :: "int option"
  isCounterOffer :: "bool option"
  buyerName :: string
  buyerType :: "string option"
  price :: real
  agentCommission :: "real option"
  commissionType :: "string option"
  closingDate :: "nat option"
  closingTimelineDays :: "real option"
  contingencies :: "string list option"
  notes_offer :: "string option"
  status :: "string option"
  documentUrl :: "string option"

text \<open>
  \<^verbatim>\<open>Offer\<close>: the properties of \<^verbatim>\<open>InsertOffer\<close> and the six the store sets. The property
  \<^verbatim>\<open>id\<close> is \<open>id_offer\<close> here.
\<close>

record Offer = InsertOffer +
  id_offer :: nat
  userId :: nat
  netProceeds :: real
  riskScore :: int
  overallScore :: "int option"
  createdAt :: nat

text \<open>
  The object \<^verbatim>\<open>POST /api/offers\<close> hands to \<^verbatim>\<open>createOffer\<close>: the validated body and the
  \<^verbatim>\<open>netProceeds\<close> key the handler adds to it.
\<close>

record OfferWithNetProceeds = InsertOffer +
  netProceeds_in :: "real option"

record UsageEvent =
  id_event :: nat
  userId_event :: nat
  eventType :: string
  amount :: real
  processed :: bool
  stripeInvoiceId :: "string option"
  stripeUsageRecordId :: "string option"
  createdAt_event :: nat

subsection \<open>server/storage.ts: MemStorage\<close>

record MemStorage =
  listingsData :: "(nat \<times> Listing) list"
  offersData :: "(nat \<times> Offer) list"
  usageEventsData :: "(nat \<times> UsageEvent) list"
  currentOfferId :: nat
  currentUsageEventId :: nat

definition getListing :: "MemStorage \<Rightarrow> nat \<Rightarrow> Listing option" where
  "getListing st i = map_of (listingsData st) i"

text \<open>\<^verbatim>\<open>Math.round\<close>: the nearest integer, a half rounded towards plus infinity.\<close>

definition Math_round :: "real \<Rightarrow> int" where
  "Math_round x = \<lfloor>x + 1 / 2\<rfloor>"

text \<open>
  \<^verbatim>\<open>const contingencies = offer.contingencies as string[] || []\<close> and
  \<^verbatim>\<open>Math.max(1, 10 - contingencies.length * 2)\<close>.
\<close>

definition contingencies_or_empty :: "string list option \<Rightarrow> string list" where
  "contingencies_or_empty c = (case c of None \<Rightarrow> [] | Some cs \<Rightarrow> cs)"

definition riskScore_of :: "string list option \<Rightarrow> int" where
  "riskScore_of c = max 1 (10 - int (length (contingencies_or_empty c)) * 2)"

text \<open>
  \<^verbatim>\<open>offer.agentCommission ? Number(offer.agentCommission) : 0.06 * price\<close>: a missing
  commission and a commission of 0 are both falsy.
\<close>

definition commission_of :: "real \<Rightarrow> real option \<Rightarrow> real" where
  "commission_of p c =
     (case c of None \<Rightarrow> 0.06 * p | Some a \<Rightarrow> if a = 0 then 0.06 * p else a)"

text \<open>
  \<^verbatim>\<open>Math.round((price / 1000000 * 40) + (riskScore * 5) + (60 - offer.closingTimelineDays / 2))\<close>;
  without \<^verbatim>\<open>closingTimelineDays\<close> the sum is \<^verbatim>\<open>NaN\<close>.
\<close>

definition overallScore_of :: "real \<Rightarrow> int \<Rightarrow> real option \<Rightarrow> int option" where
  "overallScore_of p r d =
     (case d of
        None \<Rightarrow> None
      | Some days \<Rightarrow> Some (Math_round ((p / 1000000 * 40) + (real_of_int r * 5) + (60 - days / 2))))"

text \<open>
  \<^verbatim>\<open>createOffer\<close>. The new record spreads \<^verbatim>\<open>...offer\<close> first, so a \<^verbatim>\<open>netProceeds\<close> key of the
  argument (\<open>netProceeds_in\<close>) is copied and then replaced by the \<^verbatim>\<open>netProceeds\<close> computed
  here, as are \<^verbatim>\<open>contingencies\<close> by \<^verbatim>\<open>offer.contingencies || []\<close>.
\<close>

definition createOffer ::
  "MemStorage \<Rightarrow> nat \<Rightarrow> OfferWithNetProceeds \<Rightarrow> nat \<Rightarrow> MemStorage \<times> Offer" where
  "createOffer st now offer uid =
     (let i = currentOfferId st;
          p = price offer;
          commission = commission_of p (agentCommission offer);
          np = p - commission;
          rs = riskScore_of (contingencies offer);
          os = overallScore_of p rs (closingTimelineDays offer);
          newOffer = \<lparr>listingId = listingId offer,
                      parentOfferId = parentOfferId offer,
                      versionNumber = versionNumber offer,
                      isCounterOffer = isCounterOffer offer,
                      buyerName = buyerName offer,
                      buyerType = buyerType offer,
                      price = price offer,
                      agentCommission = agentCommission offer,
                      commissionType = commissionType offer,
                      closingDate = closingDate offer,
                      closingTimelineDays = closingTimelineDays offer,
                      contingencies = Some (contingencies_or_empty (contingencies offer)),
                      notes_offer = notes_offer offer,
                      status = status offer,
                      documentUrl = documentUrl offer,
                      id_offer = i,
                      userId = uid,
                      netProceeds = np,
                      riskScore = rs,
                      overallScore = os,
                      createdAt = now\<rparr>
      in (st\<lparr>currentOfferId := i + 1,
              offersData := AList.update i newOffer (offersData st)\<rparr>,
          newOffer))"

definition getOffers :: "MemStorage \<Rightarrow> nat \<Rightarrow> Offer list" where
  "getOffers st lid = filter (\<lambda>offer. listingId offer = lid) (map snd (offersData st))"

definition getOffer :: "MemStorage \<Rightarrow> nat \<Rightarrow> Offer option" where
  "getOffer st i = map_of (offersData st) i"

text \<open>
  \<^verbatim>\<open>Partial<InsertOffer>\<close>: every key is absent (\<open>None\<close>) or carries a value of the
  property's type.
\<close>

record PartialInsertOffer =
  listingId_p :: "nat option"
  parentOfferId_p :: "nat option option"
  versionNumber_p :: "int option option"
  isCounterOffer_p :: "bool option option"
  buyerName_p :: "string option"
  buyerType_p :: "string option option"
  price_p :: "real option"
  agentCommission_p :: "real option option"
  commissionType_p :: "string option option"
  closingDate_p :: "nat option option"
  closingTimelineDays_p :: "real option option"
  contingencies_p :: "string list option option"
  notes_offer_p :: "string option option"
  status_p :: "string option option"
  documentUrl_p :: "string option option"

text \<open>One key of \<^verbatim>\<open>{ ...existingOffer, ...offer }\<close>: the later spread wins where it has the key.\<close>

definition spread_key :: "'a \<Rightarrow> 'a option \<Rightarrow> 'a" where
  "spread_key old new = (case new of None \<Rightarrow> old | Some v \<Rightarrow> v)"

definition updateOffer ::
  "MemStorage \<Rightarrow> nat \<Rightarrow> PartialInsertOffer \<Rightarrow> MemStorage \<times> Offer option" where
  "updateOffer st i offer =
     (case getOffer st i of
        None \<Rightarrow> (st, None)
      | Some existingOffer \<Rightarrow>
          (let updatedOffer = existingOffer
                 \<lparr>listingId := spread_key (listingId existingOffer) (listingId_p offer),
                  parentOfferId := spread_key (parentOfferId existingOffer) (parentOfferId_p offer),
                  versionNumber := spread_key (versionNumber existingOffer) (versionNumber_p offer),
                  isCounterOffer := spread_key (isCounterOffer existingOffer) (isCounterOffer_p offer),
                  buyerName := spread_key (buyerName existingOffer) (buyerName_p offer),
                  buyerType := spread_key (buyerType existingOffer) (buyerType_p offer),
                  price := spread_key (price existingOffer) (price_p offer),
                  agentCommission := spread_key (agentCommission existingOffer) (agentCommission_p offer),
                  commissionType := spread_key (commissionType existingOffer) (commissionType_p offer),
                  closingDate := spread_key (closingDate existingOffer) (closingDate_p offer),
                  closingTimelineDays :=
                    spread_key (closingTimelineDays existingOffer) (closingTimelineDays_p offer),
                  contingencies := spread_key (contingencies existingOffer) (contingencies_p offer),
                  notes_offer := spread_key (notes_offer existingOffer) (notes_offer_p offer),
                  status := spread_key (status existingOffer) (status_p offer),
                  documentUrl := spread_key (documentUrl existingOffer) (documentUrl_p offer)\<rparr>
           in (st\<lparr>offersData := AList.update i updatedOffer (offersData st)\<rparr>,
               Some updatedOffer)))"

text \<open>\<^verbatim>\<open>offer.parentOfferId || offer.id\<close> and \<^verbatim>\<open>a.versionNumber || 1\<close>: 0 is falsy as well.\<close>

definition rootOfferId_of :: "Offer \<Rightarrow> nat" where
  "rootOfferId_of offer =
     (case parentOfferId offer of
        None \<Rightarrow> id_offer offer
      | Some p \<Rightarrow> if p = 0 then id_offer offer else p)"

definition versionNumber_or_1 :: "Offer \<Rightarrow> int" where
  "versionNumber_or_1 a =
     (case versionNumber a of None \<Rightarrow> 1 | Some v \<Rightarrow> if v = 0 then 1 else v)"

text \<open>
  \<^verbatim>\<open>getOfferHistory\<close>. \<^verbatim>\<open>Array.prototype.sort\<close> with the comparator
  \<^verbatim>\<open>(a.versionNumber || 1) - (b.versionNumber || 1)\<close> is a stable sort on that key.
\<close>

definition getOfferHistory :: "MemStorage \<Rightarrow> nat \<Rightarrow> Offer list" where
  "getOfferHistory st offerId =
     (case getOffer st offerId of
        None \<Rightarrow> []
      | Some offer \<Rightarrow>
          (let rootOfferId = rootOfferId_of offer in
           case getOffer st rootOfferId of
             None \<Rightarrow> [offer]
           | Some rootOffer \<Rightarrow>
               (let counterOffers =
                      filter (\<lambda>c. parentOfferId c = Some rootOfferId \<or> id_offer c = rootOfferId)
                        (map snd (offersData st))
                in if counterOffers = [] then [offer]
                   else sort_key versionNumber_or_1 counterOffers)))"

definition createUsageEvent ::
  "MemStorage \<Rightarrow> nat \<Rightarrow> nat \<Rightarrow> string \<Rightarrow> real \<Rightarrow> MemStorage \<times> UsageEvent" where
  "createUsageEvent st now uid ty amt =
     (let i = currentUsageEventId st;
          newEvent = \<lparr>id_event = i, userId_event = uid, eventType = ty, amount = amt,
                      processed = False, stripeInvoiceId = None, stripeUsageRecordId = None,
                      createdAt_event = now\<rparr>
      in (st\<lparr>currentUsageEventId := i + 1,
              usageEventsData := AList.update i newEvent (usageEventsData st)\<rparr>,
          newEvent))"

subsection \<open>server/routes.ts\<close>

text \<open>The responses that are not a success: 401, 404, 403 and 500.\<close>

datatype http_error = Unauthorized | NotFound | Forbidden | ServerError

text \<open>\<^verbatim>\<open>Number(listing.loanBalance || 0)\<close>.\<close>

definition loanBalance_or_0 :: "Listing \<Rightarrow> real" where
  "loanBalance_or_0 listing = (case loanBalance listing of None \<Rightarrow> 0 | Some b \<Rightarrow> b)"

text \<open>
  The commission of both offer handlers:
  \<^verbatim>\<open>let agentCommission = Number(validatedData.agentCommission || 0);\<close>
  \<^verbatim>\<open>if (agentCommission > 0 && agentCommission <= 20) agentCommission = (price * agentCommission) / 100;\<close>
\<close>

definition resolve_agentCommission :: "real \<Rightarrow> real option \<Rightarrow> real" where
  "resolve_agentCommission p c =
     (let a = (case c of None \<Rightarrow> 0 | Some x \<Rightarrow> x)
      in if a > 0 \<and> a \<le> 20 then (p * a) / 100 else a)"

text \<open>\<^verbatim>\<open>{ ...validatedData, netProceeds: price - loanBalance - agentCommission }\<close>.\<close>

definition offerWithNetProceeds :: "Listing \<Rightarrow> InsertOffer \<Rightarrow> OfferWithNetProceeds" where
  "offerWithNetProceeds listing validatedData =
     InsertOffer.extend validatedData
       (OfferWithNetProceeds.fields
          (Some (price validatedData - loanBalance_or_0 listing
                 - resolve_agentCommission (price validatedData) (agentCommission validatedData))))"

text \<open>\<^verbatim>\<open>POST /api/offers\<close>.\<close>

definition post_offers ::
  "MemStorage \<Rightarrow> nat \<Rightarrow> nat option \<Rightarrow> InsertOffer \<Rightarrow> MemStorage \<times> (http_error + Offer)" where
  "post_offers st now user validatedData =
     (case user of
        None \<Rightarrow> (st, Inl Unauthorized)
      | Some uid \<Rightarrow>
          (case getListing st (listingId validatedData) of
             None \<Rightarrow> (st, Inl NotFound)
           | Some listing \<Rightarrow>
               if listing_userId listing \<noteq> uid then (st, Inl Forbidden)
               else (let created = createOffer st now (offerWithNetProceeds listing validatedData) uid;
                         billed = createUsageEvent (fst created) now uid ''offer_creation'' 1
                     in (fst billed, Inr (snd created)))))"


text \<open>\<^verbatim>\<open>GET /api/offers/:id/history\<close>.\<close>

definition get_offer_history ::
  "MemStorage \<Rightarrow> nat option \<Rightarrow> nat \<Rightarrow> http_error + Offer list" where
  "get_offer_history st user offerId =
     (case user of
        None \<Rightarrow> Inl Unauthorized
      | Some uid \<Rightarrow>
          (case getOffer st offerId of
             None \<Rightarrow> Inl NotFound
           | Some offer \<Rightarrow>
               (case getListing st (listingId offer) of
                  None \<Rightarrow> Inl Forbidden
                | Some listing \<Rightarrow>
                    if listing_userId listing \<noteq> uid then Inl Forbidden
                    else Inr (getOfferHistory st offerId))))"

text \<open>
  \<^verbatim>\<open>GET /api/listings/:listingId/insights\<close>. The conversion of a number to text is taken as
  given: \<open>toText\<close> is the conversion of a template literal, \<open>toLocaleString\<close> is
  \<^verbatim>\<open>Number.prototype.toLocaleString\<close>. The handler also reads the listing's priorities and
  never uses them; that read is left out.
\<close>

record Insights =
  recommendation :: string
  riskAssessment :: "string option"
  netProceedsComparison :: "string option"
  negotiationOpportunities :: "string option"

text \<open>\<^verbatim>\<open>a > b\<close> on scores: false as soon as one of them is \<^verbatim>\<open>NaN\<close>.\<close>

definition score_gt :: "int option \<Rightarrow> int option \<Rightarrow> bool" where
  "score_gt a b = (case (a, b) of (Some x, Some y) \<Rightarrow> x > y | _ \<Rightarrow> False)"

definition score_text :: "(real \<Rightarrow> string) \<Rightarrow> int option \<Rightarrow> string" where
  "score_text toText a = (case a of None \<Rightarrow> ''NaN'' | Some x \<Rightarrow> toText (real_of_int x))"

text \<open>The body of the loop over the offers, on (best, lowest risk, highest net proceeds).\<close>

fun insights_step :: "Offer \<Rightarrow> Offer \<times> Offer \<times> Offer \<Rightarrow> Offer \<times> Offer \<times> Offer" where
  "insights_step offer (bestOffer, lowestRiskOffer, highestNetProceedsOffer) =
     (if score_gt (overallScore offer) (overallScore bestOffer) then offer else bestOffer,
      if riskScore offer > riskScore lowestRiskOffer then offer else lowestRiskOffer,
      if netProceeds offer > netProceeds highestNetProceedsOffer then offer
      else highestNetProceedsOffer)"

definition netProceeds_delta_text :: "(real \<Rightarrow> string) \<Rightarrow> real \<Rightarrow> real \<Rightarrow> string" where
  "netProceeds_delta_text toLocaleString highest second =
     (if highest - second > 0 then ''$'' @ toLocaleString (highest - second) @ '' more''
      else ''$'' @ toLocaleString (second - highest) @ '' less'')"

text \<open>
  The handler. Building the insights reads \<^verbatim>\<open>lowestRiskOffer.contingencies.length\<close> and
  \<^verbatim>\<open>offers[1].netProceeds\<close>; where the object read is \<^verbatim>\<open>null\<close> or \<^verbatim>\<open>undefined\<close> the read
  throws a TypeError, which the handler's \<^verbatim>\<open>catch\<close> answers with status 500.
\<close>

definition get_insights ::
  "(real \<Rightarrow> string) \<Rightarrow> (real \<Rightarrow> string) \<Rightarrow> MemStorage \<Rightarrow> nat option \<Rightarrow> nat
     \<Rightarrow> http_error + Insights" where
  "get_insights toText toLocaleString st user lid =
     (case user of
        None \<Rightarrow> Inl Unauthorized
      | Some uid \<Rightarrow>
          (case getListing st lid of
             None \<Rightarrow> Inl Forbidden
           | Some listing \<Rightarrow>
               if listing_userId listing \<noteq> uid then Inl Forbidden
               else
                 (case getOffers st lid of
                    [] \<Rightarrow>
                      Inr \<lparr>recommendation = ''No offers to analyze yet'',
                           riskAssessment = None,
                           netProceedsComparison = None,
                           negotiationOpportunities = None\<rparr>
                  | first # rest \<Rightarrow>
                      (case fold insights_step (first # rest) (first, first, first) of
                         (bestOffer, lowestRiskOffer, highestNetProceedsOffer) \<Rightarrow>
                           (case contingencies lowestRiskOffer of
                              None \<Rightarrow> Inl ServerError
                            | Some cs \<Rightarrow>
                                (case rest of
                                   [] \<Rightarrow> Inl ServerError
                                 | second # _ \<Rightarrow>
                                     Inr \<lparr>recommendation =
                                            ''Based on your priorities, the offer from ''
                                            @ buyerName bestOffer
                                            @ '' is the strongest overall option with a score of ''
                                            @ score_text toText (overallScore bestOffer) @ ''/100.'',
                                          riskAssessment = Some
                                            (''The '' @ buyerName lowestRiskOffer
                                             @ '' offer has the lowest risk with ''
                                             @ toText (real (length cs))
                                             @ '' contingencies. Consider this option if certainty of closing is your highest priority.''),
                                          netProceedsComparison = Some
                                            (''The '' @ buyerName highestNetProceedsOffer
                                             @ '' offer provides the highest net proceeds at $''
                                             @ toLocaleString (netProceeds highestNetProceedsOffer)
                                             @ '', which is ''
                                             @ netProceeds_delta_text toLocaleString
                                                 (netProceeds highestNetProceedsOffer)
                                                 (netProceeds second)
                                             @ '' than the next best offer.''),
                                          negotiationOpportunities = Some
                                            ''Consider asking buyers to reduce contingencies or improve their offer price to strengthen their position.''\<rparr>))))))"

subsection \<open>A listing, its store and an offer\<close>

text \<open>
  The data the theorems are instantiated at: a store holding one listing with a loan
  balance of 200000, owned by user 1, and the body of an offer on it of 700000 with a
  commission of 3 (percent), one contingency and 30 days to closing.
\<close>

definition demo_listing :: Listing where
  "demo_listing = \<lparr>listing_id = 1, listing_userId = 1, address = ''12 Elm Street'',
                    loanBalance = Some 200000\<rparr>"

definition demo_store :: MemStorage where
  "demo_store = \<lparr>listingsData = [(1, demo_listing)], offersData = [], usageEventsData = [],
                  currentOfferId = 1, currentUsageEventId = 1\<rparr>"

definition demo_body :: InsertOffer where
  "demo_body = \<lparr>listingId = 1, parentOfferId = None, versionNumber = Some 1,
                 isCounterOffer = Some False, buyerName = ''Avery'', buyerType = Some ''cash'',
                 price = 700000, agentCommission = Some 3, commissionType = Some ''percent'',
                 closingDate = None, closingTimelineDays = Some 30,
                 contingencies = Some [''inspection''], notes_offer = None,
                 status = Some ''pending'', documentUrl = None\<rparr>"

text \<open>
  The store after that offer has been posted by the owner, and after two counter-offers,
  each made the way the counter-offer form makes it: \<^verbatim>\<open>parentOfferId\<close> is the id of the
  offer it counters, \<^verbatim>\<open>versionNumber\<close> is that offer's plus one.
\<close>

definition counter_v2 :: InsertOffer where
  "counter_v2 = demo_body\<lparr>parentOfferId := Some 1, versionNumber := Some 2,
                            isCounterOffer := Some True, price := 690000\<rparr>"

definition counter_v3 :: InsertOffer where
  "counter_v3 = demo_body\<lparr>parentOfferId := Some 2, versionNumber := Some 3,
                            isCounterOffer := Some True, price := 695000\<rparr>"

definition one_offer_store :: MemStorage where
  "one_offer_store = fst (post_offers demo_store 0 (Some 1) demo_body)"

definition thread_store :: MemStorage where
  "thread_store =
     fst (post_offers (fst (post_offers one_offer_store 1 (Some 1) counter_v2)) 2 (Some 1) counter_v3)"

text \<open>The update with no key.\<close>

definition no_keys :: PartialInsertOffer where
  "no_keys = \<lparr>listingId_p = None, parentOfferId_p = None, versionNumber_p = None,
               isCounterOffer_p = None, buyerName_p = None, buyerType_p = None, price_p = None,
               agentCommission_p = None, commissionType_p = None, closingDate_p = None,
               closingTimelineDays_p = None, contingencies_p = None, notes_offer_p = None,
               status_p = None, documentUrl_p = None\<rparr>"

section \<open>Basic facts\<close>

lemmas eval_defs = post_offers_def createOffer_def createUsageEvent_def getListing_def getOffer_def
  getOffers_def offerWithNetProceeds_def InsertOffer.extend_def OfferWithNetProceeds.fields_def
  resolve_agentCommission_def loanBalance_or_0_def commission_of_def riskScore_of_def
  overallScore_of_def Math_round_def contingencies_or_empty_def Let_def
  demo_store_def demo_listing_def demo_body_def

text \<open>The store after the first offer, evaluated.\<close>

lemma one_offer_store_eq:
  "one_offer_store =
     \<lparr>listingsData = [(1, demo_listing)],
      offersData = [(1, \<lparr>listingId = 1, parentOfferId = None, versionNumber = Some 1,
               isCounterOffer = Some False, buyerName = ''Avery'',
               buyerType = Some ''cash'', price = 700000,
               agentCommission = Some 3, commissionType = Some ''percent'',
               closingDate = None, closingTimelineDays = Some 30,
               contingencies = Some [''inspection''], notes_offer = None,
               status = Some ''pending'', documentUrl = None, id_offer = 1,
               userId = 1, netProceeds = 699997, riskScore = 8,
               overallScore = Some 113, createdAt = 0\<rparr>)],
      usageEventsData = [(1, \<lparr>id_event = 1, userId_event = 1, eventType = ''offer_creation'',
               amount = 1, processed = False, stripeInvoiceId = None,
               stripeUsageRecordId = None, createdAt_event = 0\<rparr>)],
      currentOfferId = 2, currentUsageEventId = 2\<rparr>"
  by (simp add: one_offer_store_def eval_defs)

lemma Math_round_round: "Math_round x = round x"
  by (simp add: Math_round_def round_def)

lemma offerWithNetProceeds_sel:
  "listingId (offerWithNetProceeds l v) = listingId v"
  "parentOfferId (offerWithNetProceeds l v) = parentOfferId v"
  "versionNumber (offerWithNetProceeds l v) = versionNumber v"
  "isCounterOffer (offerWithNetProceeds l v) = isCounterOffer v"
  "buyerName (offerWithNetProceeds l v) = buyerName v"
  "buyerType (offerWithNetProceeds l v) = buyerType v"
  "price (offerWithNetProceeds l v) = price v"
  "agentCommission (offerWithNetProceeds l v) = agentCommission v"
  "commissionType (offerWithNetProceeds l v) = commissionType v"
  "closingDate (offerWithNetProceeds l v) = closingDate v"
  "closingTimelineDays (offerWithNetProceeds l v) = closingTimelineDays v"
  "contingencies (offerWithNetProceeds l v) = contingencies v"
  "notes_offer (offerWithNetProceeds l v) = notes_offer v"
  "status (offerWithNetProceeds l v) = status v"
  "documentUrl (offerWithNetProceeds l v) = documentUrl v"
  "netProceeds_in (offerWithNetProceeds l v) =
     Some (price v - loanBalance_or_0 l - resolve_agentCommission (price v) (agentCommission v))"
  by (simp_all add: offerWithNetProceeds_def InsertOffer.extend_def OfferWithNetProceeds.fields_def)

lemma createOffer_snd:
  "id_offer (snd (createOffer st now offer uid)) = currentOfferId st"
  "userId (snd (createOffer st now offer uid)) = uid"
  "netProceeds (snd (createOffer st now offer uid)) =
     price offer - commission_of (price offer) (agentCommission offer)"
  "riskScore (snd (createOffer st now offer uid)) = riskScore_of (contingencies offer)"
  "overallScore (snd (createOffer st now offer uid)) =
     overallScore_of (price offer) (riskScore_of (contingencies offer)) (closingTimelineDays offer)"
  "agentCommission (snd (createOffer st now offer uid)) = agentCommission offer"
  "commissionType (snd (createOffer st now offer uid)) = commissionType offer"
  "contingencies (snd (createOffer st now offer uid)) =
     Some (contingencies_or_empty (contingencies offer))"
  "price (snd (createOffer st now offer uid)) = price offer"
  "listingId (snd (createOffer st now offer uid)) = listingId offer"
  by (simp_all add: createOffer_def Let_def)

lemma getOffer_createOffer:
  "getOffer (fst (createOffer st now offer uid)) (currentOfferId st) =
     Some (snd (createOffer st now offer uid))"
  by (simp add: createOffer_def Let_def getOffer_def update_conv')

lemma getOffer_createUsageEvent:
  "getOffer (fst (createUsageEvent st now uid ty amt)) i = getOffer st i"
  by (simp add: createUsageEvent_def Let_def getOffer_def)

text \<open>The owner of the listing gets the offer that \<open>createOffer\<close> builds from the handler's object.\<close>

lemma post_offers_created:
  assumes "user = Some uid" and "getListing st (listingId v) = Some l"
    and "listing_userId l = uid"
  shows "post_offers st now user v =
     (fst (createUsageEvent (fst (createOffer st now (offerWithNetProceeds l v) uid))
             now uid ''offer_creation'' 1),
      Inr (snd (createOffer st now (offerWithNetProceeds l v) uid)))"
  using assms by (simp add: post_offers_def Let_def)

lemma demo_getListing: "getListing demo_store 1 = Some demo_listing"
  by (simp add: getListing_def demo_store_def)

lemma demo_owner: "listing_userId demo_listing = 1"
  by (simp add: demo_listing_def)

section \<open>Risk score\<close>

text \<open>
  C3. An offer created with a contingency list of length \<open>n\<close> (no list counts as the
  empty one) is stored with \<open>riskScore = max 1 (10 - 2 * n)\<close>: the score lies between 1
  and 10, is 10 for no contingency, 1 from five contingencies on, and an offer with at
  least as many contingencies never scores higher.
\<close>

theorem createOffer_riskScore:
  assumes "length (contingencies_or_empty (contingencies offer)) = n"
  shows "riskScore (snd (createOffer st now offer uid)) = max 1 (10 - 2 * int n)
   \<and> getOffer (fst (createOffer st now offer uid)) (id_offer (snd (createOffer st now offer uid)))
       = Some (snd (createOffer st now offer uid))
   \<and> contingencies (snd (createOffer st now offer uid))
       = Some (contingencies_or_empty (contingencies offer))
   \<and> 1 \<le> riskScore (snd (createOffer st now offer uid))
   \<and> riskScore (snd (createOffer st now offer uid)) \<le> 10
   \<and> (n = 0 \<longrightarrow> riskScore (snd (createOffer st now offer uid)) = 10)
   \<and> (5 \<le> n \<longrightarrow> riskScore (snd (createOffer st now offer uid)) = 1)
   \<and> (\<forall>st' now' offer' uid'.
         n \<le> length (contingencies_or_empty (contingencies offer')) \<longrightarrow>
         riskScore (snd (createOffer st' now' offer' uid'))
           \<le> riskScore (snd (createOffer st now offer uid)))"
proof -
  have stored: "getOffer (fst (createOffer st now offer uid))
      (id_offer (snd (createOffer st now offer uid))) = Some (snd (createOffer st now offer uid))"
    by (simp add: createOffer_snd getOffer_createOffer)
  have score: "riskScore (snd (createOffer st now offer uid)) = max 1 (10 - 2 * int n)"
    using assms by (simp add: createOffer_snd riskScore_of_def)
  have mono: "riskScore (snd (createOffer st' now' offer' uid')) \<le> max 1 (10 - 2 * int n)"
    if "n \<le> length (contingencies_or_empty (contingencies offer'))" for st' now' offer' uid'
    using that by (simp add: createOffer_snd riskScore_of_def)
  have kept: "contingencies (snd (createOffer st now offer uid))
      = Some (contingencies_or_empty (contingencies offer))"
    by (simp add: createOffer_snd)
  show ?thesis
    unfolding score using stored kept mono by simp
qed

theorem createOffer_riskScore_witness:
  "riskScore (snd (createOffer demo_store 0
      (offerWithNetProceeds demo_listing (demo_body\<lparr>contingencies := None\<rparr>)) 1)) = 10
   \<and> riskScore (snd (createOffer demo_store 0
      (offerWithNetProceeds demo_listing demo_body) 1)) = 8
   \<and> riskScore (snd (createOffer demo_store 0
      (offerWithNetProceeds demo_listing
         (demo_body\<lparr>contingencies :=
            Some [''inspection'', ''financing'', ''appraisal'', ''title'', ''sale'', ''survey'']\<rparr>))
      1)) = 1"
  using
    createOffer_riskScore [of "offerWithNetProceeds demo_listing (demo_body\<lparr>contingencies := None\<rparr>)"
      0 demo_store 0 1]
    createOffer_riskScore [of "offerWithNetProceeds demo_listing demo_body" 1 demo_store 0 1]
    createOffer_riskScore [of "offerWithNetProceeds demo_listing
         (demo_body\<lparr>contingencies :=
            Some [''inspection'', ''financing'', ''appraisal'', ''title'', ''sale'', ''survey'']\<rparr>)"
      6 demo_store 0 1]
  by (simp add: offerWithNetProceeds_sel demo_body_def contingencies_or_empty_def)

section \<open>Overall score\<close>

text \<open>
  C4. An offer created with a price, and a number of days to closing \<open>d\<close>, is stored with
  \<open>overallScore = \<lfloor>price / 1000000 * 40 + riskScore * 5 + (60 - d / 2) + 1 / 2\<rfloor>\<close>, where
  \<open>riskScore\<close> is the stored risk score: the sum rounded to the nearest integer, a half
  towards plus infinity, which is HOL's \<open>round\<close>. The score is not clamped to the range
  from 0 to 100: some offer scores above 100 and some offer below 0.
\<close>

theorem createOffer_overallScore:
  assumes "closingTimelineDays offer = Some d"
  shows "overallScore (snd (createOffer st now offer uid)) =
       Some \<lfloor>price offer / 1000000 * 40
             + real_of_int (riskScore (snd (createOffer st now offer uid))) * 5
             + (60 - d / 2) + 1 / 2\<rfloor>
   \<and> overallScore (snd (createOffer st now offer uid)) =
       Some (round (price offer / 1000000 * 40
                    + real_of_int (riskScore (snd (createOffer st now offer uid))) * 5
                    + (60 - d / 2)))
   \<and> getOffer (fst (createOffer st now offer uid)) (id_offer (snd (createOffer st now offer uid)))
       = Some (snd (createOffer st now offer uid))
   \<and> (\<exists>st' now' offer' uid' s. overallScore (snd (createOffer st' now' offer' uid')) = Some s
         \<and> 100 < s)
   \<and> (\<exists>st' now' offer' uid' s. overallScore (snd (createOffer st' now' offer' uid')) = Some s
         \<and> s < 0)"
proof -
  have score: "overallScore (snd (createOffer st now offer uid)) =
       Some \<lfloor>price offer / 1000000 * 40
             + real_of_int (riskScore (snd (createOffer st now offer uid))) * 5
             + (60 - d / 2) + 1 / 2\<rfloor>"
    using assms by (simp add: createOffer_snd overallScore_of_def Math_round_def)
  have nearest: "overallScore (snd (createOffer st now offer uid)) =
       Some (round (price offer / 1000000 * 40
                    + real_of_int (riskScore (snd (createOffer st now offer uid))) * 5
                    + (60 - d / 2)))"
    unfolding score round_def by simp
  have stored: "getOffer (fst (createOffer st now offer uid))
      (id_offer (snd (createOffer st now offer uid))) = Some (snd (createOffer st now offer uid))"
    by (simp add: createOffer_snd getOffer_createOffer)
  have high: "overallScore (snd (createOffer demo_store 0
      (offerWithNetProceeds demo_listing demo_body) 1)) = Some 113"
    by (simp add: createOffer_snd offerWithNetProceeds_sel overallScore_of_def riskScore_of_def
          contingencies_or_empty_def Math_round_def demo_body_def)
  have low: "overallScore (snd (createOffer demo_store 0
      (offerWithNetProceeds demo_listing (demo_body\<lparr>closingTimelineDays := Some 400\<rparr>)) 1))
      = Some (- 72)"
    by (simp add: createOffer_snd offerWithNetProceeds_sel overallScore_of_def riskScore_of_def
          contingencies_or_empty_def Math_round_def demo_body_def)
  have above: "\<exists>st' now' offer' uid' s.
      overallScore (snd (createOffer st' now' offer' uid')) = Some s \<and> 100 < s"
    using high by (intro exI [of _ demo_store] exI [of _ 0]
        exI [of _ "offerWithNetProceeds demo_listing demo_body"] exI [of _ 1] exI [of _ 113]) simp
  have below: "\<exists>st' now' offer' uid' s.
      overallScore (snd (createOffer st' now' offer' uid')) = Some s \<and> s < 0"
    using low by (intro exI [of _ demo_store] exI [of _ 0]
        exI [of _ "offerWithNetProceeds demo_listing (demo_body\<lparr>closingTimelineDays := Some 400\<rparr>)"]
        exI [of _ 1] exI [of _ "- 72"]) simp
  show ?thesis
    using score nearest stored above below by blast
qed

text \<open>
  At the offer of 700000 the sum is 113; at a price of 690000 it is 112.6, stored as 113;
  at 31 days to closing it is 112.5, stored as 113; at 401 days it is -72.5, stored as -72.
\<close>

theorem createOffer_overallScore_witness:
  "overallScore (snd (createOffer demo_store 0 (offerWithNetProceeds demo_listing demo_body) 1))
     = Some 113
   \<and> overallScore (snd (createOffer demo_store 0
        (offerWithNetProceeds demo_listing (demo_body\<lparr>price := 690000\<rparr>)) 1)) = Some 113
   \<and> overallScore (snd (createOffer demo_store 0
        (offerWithNetProceeds demo_listing (demo_body\<lparr>closingTimelineDays := Some 31\<rparr>)) 1))
       = Some 113
   \<and> overallScore (snd (createOffer demo_store 0
        (offerWithNetProceeds demo_listing (demo_body\<lparr>closingTimelineDays := Some 401\<rparr>)) 1))
       = Some (- 72)"
proof -
  let ?a = "offerWithNetProceeds demo_listing demo_body"
  let ?b = "offerWithNetProceeds demo_listing (demo_body\<lparr>price := 690000\<rparr>)"
  let ?c = "offerWithNetProceeds demo_listing (demo_body\<lparr>closingTimelineDays := Some 31\<rparr>)"
  let ?d = "offerWithNetProceeds demo_listing (demo_body\<lparr>closingTimelineDays := Some 401\<rparr>)"
  have days: "closingTimelineDays ?a = Some 30" "closingTimelineDays ?b = Some 30"
    "closingTimelineDays ?c = Some 31" "closingTimelineDays ?d = Some 401"
    by (simp_all add: offerWithNetProceeds_sel demo_body_def)
  have risk: "riskScore (snd (createOffer demo_store 0 ?a 1)) = 8"
    "riskScore (snd (createOffer demo_store 0 ?b 1)) = 8"
    "riskScore (snd (createOffer demo_store 0 ?c 1)) = 8"
    "riskScore (snd (createOffer demo_store 0 ?d 1)) = 8"
    by (simp_all add: createOffer_snd offerWithNetProceeds_sel riskScore_of_def
          contingencies_or_empty_def demo_body_def)
  have prices: "price ?a = 700000" "price ?b = 690000" "price ?c = 700000" "price ?d = 700000"
    by (simp_all add: offerWithNetProceeds_sel demo_body_def)
  have a: "overallScore (snd (createOffer demo_store 0 ?a 1)) = Some 113"
    using createOffer_overallScore [OF days(1), of demo_store 0 1, THEN conjunct1]
    unfolding risk prices by simp
  have b: "overallScore (snd (createOffer demo_store 0 ?b 1)) = Some 113"
    using createOffer_overallScore [OF days(2), of demo_store 0 1, THEN conjunct1]
    unfolding risk prices by simp
  have c: "overallScore (snd (createOffer demo_store 0 ?c 1)) = Some 113"
    using createOffer_overallScore [OF days(3), of demo_store 0 1, THEN conjunct1]
    unfolding risk prices by simp
  have d: "overallScore (snd (createOffer demo_store 0 ?d 1)) = Some (- 72)"
    using createOffer_overallScore [OF days(4), of demo_store 0 1, THEN conjunct1]
    unfolding risk prices by simp
  show ?thesis
    using a b c d by simp
qed

section \<open>Net proceeds\<close>

text \<open>
  What \<^verbatim>\<open>POST /api/offers\<close> stores as \<^verbatim>\<open>netProceeds\<close>: the value \<open>createOffer\<close> computes from
  the price and the commission as supplied, whatever the listing's loan balance and
  whatever \<^verbatim>\<open>netProceeds\<close> the handler put into the object.
\<close>

lemma post_offers_netProceeds:
  assumes "user = Some uid" and "getListing st (listingId v) = Some l"
    and "listing_userId l = uid"
  shows "\<exists>st' offer. post_offers st now user v = (st', Inr offer)
     \<and> getOffer st' (id_offer offer) = Some offer
     \<and> netProceeds offer = price v - commission_of (price v) (agentCommission v)"
proof -
  let ?created = "createOffer st now (offerWithNetProceeds l v) uid"
  let ?billed = "createUsageEvent (fst ?created) now uid ''offer_creation'' 1"
  have run: "post_offers st now user v = (fst ?billed, Inr (snd ?created))"
    using assms by (rule post_offers_created)
  have stored: "getOffer (fst ?billed) (id_offer (snd ?created)) = Some (snd ?created)"
    by (simp add: getOffer_createUsageEvent createOffer_snd getOffer_createOffer)
  have net: "netProceeds (snd ?created) = price v - commission_of (price v) (agentCommission v)"
    by (simp add: createOffer_snd offerWithNetProceeds_sel)
  show ?thesis
    using run stored net by blast
qed

text \<open>
  C1. The offer of 700000 with a commission of 3 percent on the listing with a loan
  balance of 200000: the handler computes 700000 - 200000 - 21000 = 479000, and the
  offer is stored with \<open>netProceeds = 699997\<close>, the price minus the commission as supplied.
\<close>

theorem post_offers_netProceeds_demo:
  "map_sum id netProceeds (snd (post_offers demo_store 0 (Some 1) demo_body)) = Inr 699997
   \<and> map_option netProceeds (getOffer (fst (post_offers demo_store 0 (Some 1) demo_body)) 1)
       = Some 699997
   \<and> netProceeds_in (offerWithNetProceeds demo_listing demo_body) = Some 479000
   \<and> price demo_body - loanBalance_or_0 demo_listing
       - resolve_agentCommission (price demo_body) (agentCommission demo_body) = 479000"
  by (simp add: eval_defs)

section \<open>Commission\<close>

text \<open>
  C9. An offer posted without \<^verbatim>\<open>agentCommission\<close> is stored with a commission of 6 percent
  of the price deducted from the price: \<open>netProceeds = price - 0.06 * price\<close>.
\<close>

theorem post_offers_missing_commission:
  assumes "user = Some uid" and "getListing st (listingId v) = Some l"
    and "listing_userId l = uid" and "agentCommission v = None"
  shows "\<exists>st' offer. post_offers st now user v = (st', Inr offer)
     \<and> getOffer st' (id_offer offer) = Some offer
     \<and> netProceeds offer = price v - 0.06 * price v"
proof -
  let ?created = "createOffer st now (offerWithNetProceeds l v) uid"
  let ?billed = "createUsageEvent (fst ?created) now uid ''offer_creation'' 1"
  have run: "post_offers st now user v = (fst ?billed, Inr (snd ?created))"
    using assms(1-3) by (rule post_offers_created)
  have stored: "getOffer (fst ?billed) (id_offer (snd ?created)) = Some (snd ?created)"
    by (simp add: getOffer_createUsageEvent createOffer_snd getOffer_createOffer)
  have net: "netProceeds (snd ?created) = price v - 0.06 * price v"
    using assms(4) by (simp add: createOffer_snd offerWithNetProceeds_sel commission_of_def)
  show ?thesis
    using run stored net by blast
qed

theorem post_offers_missing_commission_witness:
  "\<exists>st' offer. post_offers demo_store 0 (Some 1) (demo_body\<lparr>agentCommission := None\<rparr>)
       = (st', Inr offer)
     \<and> getOffer st' (id_offer offer) = Some offer
     \<and> netProceeds offer = 658000"
proof -
  have listed: "getListing demo_store (listingId (demo_body\<lparr>agentCommission := None\<rparr>))
      = Some demo_listing"
    by (simp add: getListing_def demo_store_def demo_body_def)
  have missing: "agentCommission (demo_body\<lparr>agentCommission := None\<rparr>) = None"
    by simp
  have "price (demo_body\<lparr>agentCommission := None\<rparr>)
      - 0.06 * price (demo_body\<lparr>agentCommission := None\<rparr>) = 658000"
    by (simp add: demo_body_def)
  then show ?thesis
    using post_offers_missing_commission [OF refl listed demo_owner missing, of 0] by simp
qed



text \<open>
  C8, at the offer posted with a commission of 3 (percent) on a price of 700000: the
  stored record holds \<open>agentCommission = 3\<close>, not the 21000 the commission resolves to.
\<close>

theorem post_offers_agentCommission_demo:
  "agentCommission demo_body = Some 3
   \<and> map_sum id agentCommission (snd (post_offers demo_store 0 (Some 1) demo_body)) = Inr (Some 3)
   \<and> map_option agentCommission (getOffer (fst (post_offers demo_store 0 (Some 1) demo_body)) 1)
       = Some (Some 3)
   \<and> map_option agentCommission (getOffer (fst (post_offers demo_store 0 (Some 1) demo_body)) 1)
       \<noteq> Some (Some (price demo_body * 3 / 100))"
  by (simp add: eval_defs)

text \<open>
  C8, amended. An offer posted with a commission \<open>c\<close>, \<open>0 < c \<le> 20\<close>, is stored with
  \<open>agentCommission = c\<close>, the value as supplied, and with the \<^verbatim>\<open>commissionType\<close> supplied
  beside it.
\<close>

theorem post_offers_agentCommission:
  assumes "user = Some uid" and "getListing st (listingId v) = Some l"
    and "listing_userId l = uid"
    and "agentCommission v = Some c" and "0 < c" and "c \<le> 20"
  shows "\<exists>st' offer. post_offers st now user v = (st', Inr offer)
     \<and> getOffer st' (id_offer offer) = Some offer
     \<and> agentCommission offer = Some c
     \<and> commissionType offer = commissionType v"
proof -
  let ?created = "createOffer st now (offerWithNetProceeds l v) uid"
  let ?billed = "createUsageEvent (fst ?created) now uid ''offer_creation'' 1"
  have run: "post_offers st now user v = (fst ?billed, Inr (snd ?created))"
    using assms(1-3) by (rule post_offers_created)
  have stored: "getOffer (fst ?billed) (id_offer (snd ?created)) = Some (snd ?created)"
    by (simp add: getOffer_createUsageEvent createOffer_snd getOffer_createOffer)
  have raw: "agentCommission (snd ?created) = Some c"
    using assms(4) by (simp add: createOffer_snd offerWithNetProceeds_sel)
  have flag: "commissionType (snd ?created) = commissionType v"
    by (simp add: createOffer_snd offerWithNetProceeds_sel)
  show ?thesis
    using run stored raw flag by blast
qed

theorem post_offers_agentCommission_witness:
  "\<exists>st' offer. post_offers demo_store 0 (Some 1) demo_body = (st', Inr offer)
     \<and> getOffer st' (id_offer offer) = Some offer
     \<and> agentCommission offer = Some 3
     \<and> commissionType offer = Some ''percent''"
proof -
  have listed: "getListing demo_store (listingId demo_body) = Some demo_listing"
    by (simp add: getListing_def demo_store_def demo_body_def)
  have given: "agentCommission demo_body = Some 3"
    by (simp add: demo_body_def)
  have flag: "commissionType demo_body = Some ''percent''"
    by (simp add: demo_body_def)
  show ?thesis
    using post_offers_agentCommission [OF refl listed demo_owner given, of 0] by (simp add: flag)
qed

section \<open>Insights\<close>

text \<open>
  C7. For a listing with no offer, the insights handler answers its owner with the
  message "No offers to analyze yet" and the three other fields null; it does not fail.
\<close>

theorem get_insights_no_offers:
  assumes "user = Some uid" and "getListing st lid = Some l" and "listing_userId l = uid"
    and "getOffers st lid = []"
  shows "get_insights toText toLocaleString st user lid =
     Inr \<lparr>recommendation = ''No offers to analyze yet'', riskAssessment = None,
          netProceedsComparison = None, negotiationOpportunities = None\<rparr>"
  using assms by (simp add: get_insights_def)

theorem get_insights_no_offers_witness:
  "\<forall>toText toLocaleString. get_insights toText toLocaleString demo_store (Some 1) 1 =
     Inr \<lparr>recommendation = ''No offers to analyze yet'', riskAssessment = None,
          netProceedsComparison = None, negotiationOpportunities = None\<rparr>"
proof -
  have none: "getOffers demo_store 1 = []"
    by (simp add: getOffers_def demo_store_def)
  show ?thesis
    using get_insights_no_offers [OF refl demo_getListing demo_owner none] by simp
qed

text \<open>
  With exactly one offer on the listing, the handler fails for its owner: there is no
  second offer to read the net proceeds of.
\<close>

lemma get_insights_single_offer:
  assumes "user = Some uid" and "getListing st lid = Some l" and "listing_userId l = uid"
    and "getOffers st lid = [x]"
  shows "get_insights toText toLocaleString st user lid = Inl ServerError"
  using assms by (simp add: get_insights_def split: option.splits prod.splits)

text \<open>
  C6. The listing with the one offer of the store \<open>one_offer_store\<close>: the insights handler
  answers its owner with status 500.
\<close>

theorem get_insights_one_offer:
  "length (getOffers one_offer_store 1) = 1
   \<and> get_insights toText toLocaleString one_offer_store (Some 1) 1 = Inl ServerError"
  by (simp add: one_offer_store_eq get_insights_def eval_defs)

section \<open>Updating an offer\<close>

text \<open>
  C10. \<open>updateOffer\<close> on an id the store does not hold returns nothing and leaves the
  store as it is. On an existing offer it returns and stores the offer with each key of
  the update replaced and every other property kept: \<open>netProceeds\<close>, \<open>riskScore\<close> and
  \<open>overallScore\<close> stay as they were, whatever the update holds (a new price as well), and
  no other offer, listing or usage event changes.
\<close>

theorem updateOffer_frame:
  "(getOffer st i = None \<longrightarrow> updateOffer st i p = (st, None))
   \<and> (\<forall>existing. getOffer st i = Some existing \<longrightarrow>
        (\<exists>st' updated. updateOffer st i p = (st', Some updated)
           \<and> getOffer st' i = Some updated
           \<and> (\<forall>j. j \<noteq> i \<longrightarrow> getOffer st' j = getOffer st j)
           \<and> listingsData st' = listingsData st
           \<and> usageEventsData st' = usageEventsData st
           \<and> currentOfferId st' = currentOfferId st
           \<and> netProceeds updated = netProceeds existing
           \<and> riskScore updated = riskScore existing
           \<and> overallScore updated = overallScore existing
           \<and> id_offer updated = id_offer existing
           \<and> userId updated = userId existing
           \<and> createdAt updated = createdAt existing
           \<and> listingId updated = (case listingId_p p of None \<Rightarrow> listingId existing | Some x \<Rightarrow> x)
           \<and> parentOfferId updated =
               (case parentOfferId_p p of None \<Rightarrow> parentOfferId existing | Some x \<Rightarrow> x)
           \<and> versionNumber updated =
               (case versionNumber_p p of None \<Rightarrow> versionNumber existing | Some x \<Rightarrow> x)
           \<and> isCounterOffer updated =
               (case isCounterOffer_p p of None \<Rightarrow> isCounterOffer existing | Some x \<Rightarrow> x)
           \<and> buyerName updated = (case buyerName_p p of None \<Rightarrow> buyerName existing | Some x \<Rightarrow> x)
           \<and> buyerType updated = (case buyerType_p p of None \<Rightarrow> buyerType existing | Some x \<Rightarrow> x)
           \<and> price updated = (case price_p p of None \<Rightarrow> price existing | Some x \<Rightarrow> x)
           \<and> agentCommission updated =
               (case agentCommission_p p of None \<Rightarrow> agentCommission existing | Some x \<Rightarrow> x)
           \<and> commissionType updated =
               (case commissionType_p p of None \<Rightarrow> commissionType existing | Some x \<Rightarrow> x)
           \<and> closingDate updated =
               (case closingDate_p p of None \<Rightarrow> closingDate existing | Some x \<Rightarrow> x)
           \<and> closingTimelineDays updated =
               (case closingTimelineDays_p p of None \<Rightarrow> closingTimelineDays existing | Some x \<Rightarrow> x)
           \<and> contingencies updated =
               (case contingencies_p p of None \<Rightarrow> contingencies existing | Some x \<Rightarrow> x)
           \<and> notes_offer updated =
               (case notes_offer_p p of None \<Rightarrow> notes_offer existing | Some x \<Rightarrow> x)
           \<and> status updated = (case status_p p of None \<Rightarrow> status existing | Some x \<Rightarrow> x)
           \<and> documentUrl updated =
               (case documentUrl_p p of None \<Rightarrow> documentUrl existing | Some x \<Rightarrow> x)))"
  by (simp add: updateOffer_def Let_def spread_key_def getOffer_def update_conv')

theorem updateOffer_frame_witness:
  "updateOffer one_offer_store 7 (no_keys\<lparr>price_p := Some 650000\<rparr>) = (one_offer_store, None)
   \<and> map_option price (snd (updateOffer one_offer_store 1 (no_keys\<lparr>price_p := Some 650000\<rparr>)))
       = Some 650000
   \<and> map_option netProceeds (snd (updateOffer one_offer_store 1 (no_keys\<lparr>price_p := Some 650000\<rparr>)))
       = Some 699997
   \<and> map_option riskScore (snd (updateOffer one_offer_store 1 (no_keys\<lparr>price_p := Some 650000\<rparr>)))
       = Some 8
   \<and> map_option overallScore (snd (updateOffer one_offer_store 1 (no_keys\<lparr>price_p := Some 650000\<rparr>)))
       = Some (Some 113)"
proof -
  let ?p = "no_keys\<lparr>price_p := Some 650000\<rparr>"
  let ?e = "\<lparr>listingId = 1, parentOfferId = None, versionNumber = Some 1,
               isCounterOffer = Some False, buyerName = ''Avery'',
               buyerType = Some ''cash'', price = 700000,
               agentCommission = Some 3, commissionType = Some ''percent'',
               closingDate = None, closingTimelineDays = Some 30,
               contingencies = Some [''inspection''], notes_offer = None,
               status = Some ''pending'', documentUrl = None, id_offer = 1,
               userId = 1, netProceeds = 699997, riskScore = 8,
               overallScore = Some 113, createdAt = 0\<rparr>"
  have absent: "getOffer one_offer_store 7 = None"
    by (simp add: one_offer_store_eq getOffer_def)
  have present: "getOffer one_offer_store 1 = Some ?e"
    by (simp add: one_offer_store_eq getOffer_def)
  have a: "updateOffer one_offer_store 7 ?p = (one_offer_store, None)"
    using updateOffer_frame [of one_offer_store 7 ?p] absent by simp
  obtain st' updated where u: "updateOffer one_offer_store 1 ?p = (st', Some updated)"
    and f: "price updated = (case price_p ?p of None \<Rightarrow> price ?e | Some x \<Rightarrow> x)"
       "netProceeds updated = netProceeds ?e" "riskScore updated = riskScore ?e"
       "overallScore updated = overallScore ?e"
    using updateOffer_frame [of one_offer_store 1 ?p] present by blast
  show ?thesis
    using a u f by simp
qed

section \<open>History of a negotiation thread\<close>

lemma get_offer_history_NotFound:
  "getOffer st offerId = None \<Longrightarrow> get_offer_history st (Some uid) offerId = Inl NotFound"
  by (simp add: get_offer_history_def)

text \<open>
  What \<open>getOfferHistory\<close> returns is sorted by version, and holds, beside the offer asked
  for, only offers one link away from the id it takes for the root.
\<close>

lemma getOfferHistory_sorted: "sorted (map versionNumber_or_1 (getOfferHistory st i))"
  by (simp add: getOfferHistory_def Let_def split: option.splits)

lemma getOfferHistory_one_step:
  assumes "getOffer st i = Some offer" and "c \<in> set (getOfferHistory st i)"
  shows "c = offer \<or> parentOfferId c = Some (rootOfferId_of offer)
         \<or> id_offer c = rootOfferId_of offer"
  using assms by (auto simp add: getOfferHistory_def Let_def split: option.splits if_splits)

text \<open>
  C5. The thread of three offers 1, 2, 3, where 2 counters 1 and 3 counters 2: the
  history of offer 3 is offers 2 and 3, and the history of offer 1 is offers 1 and 2.
  Neither holds the whole thread.
\<close>

theorem getOfferHistory_thread:
  "map (\<lambda>c. (id_offer c, parentOfferId c, versionNumber c)) (map snd (offersData thread_store))
     = [(1, None, Some 1), (2, Some 1, Some 2), (3, Some 2, Some 3)]
   \<and> map id_offer (getOfferHistory thread_store 3) = [2, 3]
   \<and> map id_offer (getOfferHistory thread_store 2) = [1, 2]
   \<and> map id_offer (getOfferHistory thread_store 1) = [1, 2]
   \<and> map_sum id (map id_offer) (get_offer_history thread_store (Some 1) 3) = Inr [2, 3]"
  by (simp add: thread_store_def one_offer_store_eq counter_v2_def counter_v3_def getOfferHistory_def
        get_offer_history_def rootOfferId_of_def versionNumber_or_1_def eval_defs)

end
